theory Spec2Isabelle
  imports Main
begin

section \<open>The CSS selector builder of 05-objects-tasks.js\<close>

text \<open>
  The builder is one JavaScript object, \<^verbatim>\<open>cssSelectorBuilder\<close>, with two data
  properties (\<^verbatim>\<open>line\<close>, the text accumulated so far, and \<^verbatim>\<open>order\<close>, the
  array of the kinds of the fragments added so far) and its methods. Every fragment
  method creates a new object whose prototype is \<^verbatim>\<open>cssSelectorBuilder\<close> and
  defines \<^verbatim>\<open>line\<close> and \<^verbatim>\<open>order\<close> on it as own writable properties, so
  every object of the program carries its own two fields and finds its methods on the
  prototype. The methods read and assign the fields of \<^verbatim>\<open>this\<close>: which object
  is changed by a call is what several properties below are about. The model therefore
  keeps an explicit store of objects and passes it through every call.
\<close>

subsection \<open>Data\<close>

text \<open>
  The source tags a fragment with one of six strings (\<^verbatim>\<open>'element'\<close>,
  \<^verbatim>\<open>'id'\<close>, \<^verbatim>\<open>'class'\<close>, \<^verbatim>\<open>'attr'\<close>, \<^verbatim>\<open>'pseudoClass'\<close>,
  \<^verbatim>\<open>'pseudoElement'\<close>). No other value is ever pushed to \<^verbatim>\<open>order\<close> or
  passed to \<^verbatim>\<open>validate\<close>, so the tags are an enumeration.
\<close>

datatype kind = Element | Id | Class | Attr | PseudoClass | PseudoElement

text \<open>
  The two data properties of a builder object. The array held in \<^verbatim>\<open>order\<close> is
  kept by value: a fragment method pushes to the array of \<^verbatim>\<open>this\<close>, hands that
  very array to the new object and gives \<^verbatim>\<open>this\<close> a fresh empty array before it
  returns, and \<^verbatim>\<open>stringify\<close> assigns a fresh array too, so between two calls
  no array is reachable from two objects.
\<close>

record builder =
  line :: string
  order :: "kind list"

text \<open>
  The store: object number \<open>a\<close> is the \<open>a\<close>-th entry, a new object is appended.
  Object \<open>0\<close> is \<^verbatim>\<open>cssSelectorBuilder\<close> itself, which the module creates with
  \<^verbatim>\<open>line: ''\<close> and \<^verbatim>\<open>order: []\<close>.
\<close>

type_synonym addr = nat

type_synonym heap = "builder list"

definition cssSelectorBuilder :: addr where
  "cssSelectorBuilder = 0"

definition empty_builder :: builder where
  "empty_builder = \<lparr>line = [], order = []\<rparr>"

definition initial_heap :: heap where
  "initial_heap = [empty_builder]"

text \<open>\<^verbatim>\<open>throw Error(message)\<close>: the only exception the builder raises.\<close>

datatype error = Error string

definition duplicate_message :: string where
  "duplicate_message =
     ''Element, id and pseudo-element should not occur more then one time inside the selector''"

definition order_message :: string where
  "order_message =
     ''Selector parts should be arranged in the following order: element, id, class, attribute, pseudo-class, pseudo-element''"

subsection \<open>validate\<close>

text \<open>
  \<^verbatim>\<open>x || y\<close> with a non-empty string \<open>x\<close>: the string is truthy, the result is
  \<open>x\<close> and \<open>y\<close> is not evaluated. The \<^verbatim>\<open>attr\<close> case of \<^verbatim>\<open>validate\<close>
  has such an expression as the argument of \<^verbatim>\<open>includes\<close>.
\<close>

definition truthy_or :: "kind \<Rightarrow> bool \<Rightarrow> kind" where
  "truthy_or x y = x"

text \<open>
  \<^verbatim>\<open>validate(addition)\<close> reads \<^verbatim>\<open>this.order\<close> only; the model takes that
  array as its second argument. \<^verbatim>\<open>ord.includes(k)\<close> is \<open>k \<in> set ord\<close>. The first
  \<^verbatim>\<open>switch\<close> either throws or falls through to the second one; the function
  returns \<^verbatim>\<open>true\<close> when neither throws.
\<close>

definition validate_duplicate :: "kind \<Rightarrow> kind list \<Rightarrow> error option" where
  "validate_duplicate addition ord =
     (case addition of
        Element \<Rightarrow> if Element \<in> set ord then Some (Error duplicate_message) else None
      | Id \<Rightarrow> if Id \<in> set ord then Some (Error duplicate_message) else None
      | PseudoElement \<Rightarrow>
          if PseudoElement \<in> set ord then Some (Error duplicate_message) else None
      | _ \<Rightarrow> None)"

definition validate_order :: "kind \<Rightarrow> kind list \<Rightarrow> error option" where
  "validate_order addition ord =
     (case addition of
        Element \<Rightarrow>
          if PseudoElement \<in> set ord \<or> Class \<in> set ord
             \<or> PseudoClass \<in> set ord \<or> Attr \<in> set ord
             \<or> Id \<in> set ord
          then Some (Error order_message) else None
      | Id \<Rightarrow>
          if PseudoElement \<in> set ord \<or> Class \<in> set ord
             \<or> PseudoClass \<in> set ord \<or> Attr \<in> set ord
          then Some (Error order_message) else None
      | Class \<Rightarrow>
          if PseudoElement \<in> set ord \<or> Attr \<in> set ord
             \<or> PseudoClass \<in> set ord
          then Some (Error order_message) else None
      | Attr \<Rightarrow>
          if PseudoElement \<in> set ord
             \<or> truthy_or PseudoClass (Attr \<in> set ord) \<in> set ord
          then Some (Error order_message) else None
      | PseudoClass \<Rightarrow>
          if PseudoElement \<in> set ord then Some (Error order_message) else None
      | _ \<Rightarrow> None)"

definition validate :: "kind \<Rightarrow> kind list \<Rightarrow> error + bool" where
  "validate addition ord =
     (case validate_duplicate addition ord of
        Some e \<Rightarrow> Inl e
      | None \<Rightarrow>
          (case validate_order addition ord of
             Some e \<Rightarrow> Inl e
           | None \<Rightarrow> Inr True))"

subsection \<open>The fragment methods\<close>

text \<open>
  Assignments to the two fields of an object: \<^verbatim>\<open>this.line = s\<close>,
  \<^verbatim>\<open>this.order = ks\<close>, \<^verbatim>\<open>this.line += s\<close> and \<^verbatim>\<open>this.order.push(k)\<close>.
\<close>

definition set_line :: "addr \<Rightarrow> string \<Rightarrow> heap \<Rightarrow> heap" where
  "set_line this s h = h[this := (h ! this)\<lparr>line := s\<rparr>]"

definition set_order :: "addr \<Rightarrow> kind list \<Rightarrow> heap \<Rightarrow> heap" where
  "set_order this ks h = h[this := (h ! this)\<lparr>order := ks\<rparr>]"

definition append_line :: "addr \<Rightarrow> string \<Rightarrow> heap \<Rightarrow> heap" where
  "append_line this s h = set_line this (line (h ! this) @ s) h"

definition push_order :: "addr \<Rightarrow> kind \<Rightarrow> heap \<Rightarrow> heap" where
  "push_order this k h = set_order this (order (h ! this) @ [k]) h"

text \<open>
  \<^verbatim>\<open>Object.create(cssSelectorBuilder)\<close>: a new object, the next entry of the store.
  It has no property of its own yet, and what is read from it is found on its
  prototype, so the new entry shows the two fields of \<^verbatim>\<open>cssSelectorBuilder\<close>.
  Every method defines both fields on the new object before anything reads them.
\<close>

definition object_create :: "heap \<Rightarrow> addr \<times> heap" where
  "object_create h = (length h, h @ [h ! cssSelectorBuilder])"

text \<open>
  \<^verbatim>\<open>addProperty(obj, name)\<close> defines the property \<^verbatim>\<open>name\<close> on \<^verbatim>\<open>obj\<close> as
  a writable own property whose value is \<^verbatim>\<open>this[name]\<close>. It is called with the
  names \<^verbatim>\<open>'line'\<close> and \<^verbatim>\<open>'order'\<close> only.
\<close>

datatype property = LineProperty | OrderProperty

fun addProperty :: "addr \<Rightarrow> addr \<Rightarrow> property \<Rightarrow> heap \<Rightarrow> heap" where
  "addProperty this obj LineProperty h = set_line obj (line (h ! this)) h"
| "addProperty this obj OrderProperty h = set_order obj (order (h ! this)) h"

text \<open>
  The six methods, statement by statement. A method whose \<^verbatim>\<open>validate\<close> throws
  has changed nothing yet.
\<close>

definition element :: "addr \<Rightarrow> string \<Rightarrow> heap \<Rightarrow> error + addr \<times> heap" where
  "element this el h =
     (case validate Element (order (h ! this)) of
        Inl e \<Rightarrow> Inl e
      | Inr _ \<Rightarrow>
          (let h1 = append_line this el h;
               h2 = push_order this Element h1;
               (obj, h3) = object_create h2;
               h4 = addProperty this obj LineProperty h3;
               h5 = addProperty this obj OrderProperty h4;
               h6 = set_order this [] h5;
               h7 = set_line this [] h6
           in Inr (obj, h7)))"

definition id_sel :: "addr \<Rightarrow> string \<Rightarrow> heap \<Rightarrow> error + addr \<times> heap" where
  "id_sel this val h =
     (case validate Id (order (h ! this)) of
        Inl e \<Rightarrow> Inl e
      | Inr _ \<Rightarrow>
          (let h1 = append_line this ''#'' h;
               h2 = append_line this val h1;
               h3 = push_order this Id h2;
               (obj, h4) = object_create h3;
               h5 = addProperty this obj LineProperty h4;
               h6 = addProperty this obj OrderProperty h5;
               h7 = set_order this [] h6;
               h8 = set_line this [] h7
           in Inr (obj, h8)))"

definition class_sel :: "addr \<Rightarrow> string \<Rightarrow> heap \<Rightarrow> error + addr \<times> heap" where
  "class_sel this cl h =
     (case validate Class (order (h ! this)) of
        Inl e \<Rightarrow> Inl e
      | Inr _ \<Rightarrow>
          (let h1 = append_line this ''.'' h;
               h2 = append_line this cl h1;
               h3 = push_order this Class h2;
               (obj, h4) = object_create h3;
               h5 = addProperty this obj LineProperty h4;
               h6 = addProperty this obj OrderProperty h5;
               h7 = set_order this [] h6;
               h8 = set_line this [] h7
           in Inr (obj, h8)))"

definition attr :: "addr \<Rightarrow> string \<Rightarrow> heap \<Rightarrow> error + addr \<times> heap" where
  "attr this a h =
     (case validate Attr (order (h ! this)) of
        Inl e \<Rightarrow> Inl e
      | Inr _ \<Rightarrow>
          (let h1 = append_line this ''['' h;
               h2 = append_line this a h1;
               h3 = append_line this '']'' h2;
               h4 = push_order this Attr h3;
               (obj, h5) = object_create h4;
               h6 = addProperty this obj LineProperty h5;
               h7 = addProperty this obj OrderProperty h6;
               h8 = set_order this [] h7;
               h9 = set_line this [] h8
           in Inr (obj, h9)))"

definition pseudoClass :: "addr \<Rightarrow> string \<Rightarrow> heap \<Rightarrow> error + addr \<times> heap" where
  "pseudoClass this ps h =
     (case validate PseudoClass (order (h ! this)) of
        Inl e \<Rightarrow> Inl e
      | Inr _ \<Rightarrow>
          (let h1 = append_line this '':'' h;
               h2 = append_line this ps h1;
               h3 = push_order this PseudoClass h2;
               (obj, h4) = object_create h3;
               h5 = addProperty this obj LineProperty h4;
               h6 = addProperty this obj OrderProperty h5;
               h7 = set_order this [] h6;
               h8 = set_line this [] h7
           in Inr (obj, h8)))"

definition pseudoElement :: "addr \<Rightarrow> string \<Rightarrow> heap \<Rightarrow> error + addr \<times> heap" where
  "pseudoElement this pse h =
     (case validate PseudoElement (order (h ! this)) of
        Inl e \<Rightarrow> Inl e
      | Inr _ \<Rightarrow>
          (let h1 = append_line this ''::'' h;
               h2 = append_line this pse h1;
               h3 = push_order this PseudoElement h2;
               (obj, h4) = object_create h3;
               h5 = addProperty this obj LineProperty h4;
               h6 = addProperty this obj OrderProperty h5;
               h7 = set_order this [] h6;
               h8 = set_line this [] h7
           in Inr (obj, h8)))"

subsection \<open>stringify, toString and combine\<close>

definition stringify :: "addr \<Rightarrow> heap \<Rightarrow> string \<times> heap" where
  "stringify this h =
     (let temp = line (h ! this);
          h1 = set_line this [] h;
          h2 = set_order this [] h1
      in (temp, h2))"

definition toString :: "addr \<Rightarrow> heap \<Rightarrow> string \<times> heap" where
  "toString this h =
     (let temp = line (h ! this);
          h1 = set_line this [] h;
          h2 = set_order this [] h1
      in (temp, h2))"

text \<open>
  An argument of \<^verbatim>\<open>combine\<close> is a builder object or a string. \<^verbatim>\<open>temp += x\<close>
  appends a string as it is and converts an object to a primitive first: the object
  has no own \<^verbatim>\<open>valueOf\<close>, the inherited one returns the object, so the conversion
  calls the object's \<^verbatim>\<open>toString\<close>, which is the method above.
\<close>

datatype arg = Obj addr | Str string

fun to_primitive :: "arg \<Rightarrow> heap \<Rightarrow> string \<times> heap" where
  "to_primitive (Str s) h = (s, h)"
| "to_primitive (Obj a) h = toString a h"

text \<open>
  The loop of \<^verbatim>\<open>combine\<close>, with its index. Inside the loop \<open>i < length args\<close>,
  so \<open>length args - 1\<close> is the subtraction of the source.
\<close>

function combine_loop :: "arg list \<Rightarrow> nat \<Rightarrow> string \<Rightarrow> heap \<Rightarrow> string \<times> heap" where
  "combine_loop args i temp h =
     (if i < length args then
        (let (s, h1) = to_primitive (args ! i) h;
             temp1 = temp @ s;
             temp2 = (if i < length args - 1 then temp1 @ '' '' else temp1)
         in combine_loop args (i + 1) temp2 h1)
      else (temp, h))"
  by pat_completeness auto
termination
  by (relation "measure (\<lambda>(args, i, temp, h). length args - i)") auto

declare combine_loop.simps [simp del]

definition combine :: "addr \<Rightarrow> arg list \<Rightarrow> heap \<Rightarrow> addr \<times> heap" where
  "combine this args h =
     (let (temp, h1) = combine_loop args 0 [] h;
          h2 = set_line this temp h1
      in (this, h2))"

subsection \<open>Calls by kind, chains and nested combination\<close>

text \<open>
  The method that adds a fragment of a given kind, and a chain of such calls
  \<^verbatim>\<open>this.m1(v1).m2(v2)...\<close>: each call is made on the object the previous
  one returned, and an exception ends the chain.
\<close>

fun add_fragment :: "kind \<Rightarrow> addr \<Rightarrow> string \<Rightarrow> heap \<Rightarrow> error + addr \<times> heap" where
  "add_fragment Element = element"
| "add_fragment Id = id_sel"
| "add_fragment Class = class_sel"
| "add_fragment Attr = attr"
| "add_fragment PseudoClass = pseudoClass"
| "add_fragment PseudoElement = pseudoElement"

fun chain :: "addr \<Rightarrow> (kind \<times> string) list \<Rightarrow> heap \<Rightarrow> error + addr \<times> heap" where
  "chain this [] h = Inr (this, h)"
| "chain this ((k, v) # fs) h =
     (case add_fragment k this v h of
        Inl e \<Rightarrow> Inl e
      | Inr (obj, h') \<Rightarrow> chain obj fs h')"

text \<open>
  The expression
  \<^verbatim>\<open>cssSelectorBuilder.combine(cssSelectorBuilder.combine(a, t1, b), '~',
  cssSelectorBuilder.combine(c, t2, d)).stringify()\<close>:
  JavaScript evaluates the arguments of the outer call from left to right, then the
  outer call, then \<^verbatim>\<open>stringify\<close> on what it returned.
\<close>

definition nested_combine ::
  "addr \<Rightarrow> string \<Rightarrow> addr \<Rightarrow> addr \<Rightarrow> string \<Rightarrow> addr \<Rightarrow> heap \<Rightarrow> string \<times> heap" where
  "nested_combine a t1 b c t2 d h =
     (let (l, h1) = combine cssSelectorBuilder [Obj a, Str t1, Obj b] h;
          (r, h2) = combine cssSelectorBuilder [Obj c, Str t2, Obj d] h1;
          (res, h3) = combine cssSelectorBuilder [Obj l, Str ''~'', Obj r] h2
      in stringify res h3)"

subsection \<open>What the specification says, in its own words\<close>

text \<open>
  The rendered form of one fragment: the value for an element, \<^verbatim>\<open>#\<close> and the
  value for an id, \<^verbatim>\<open>.\<close> and the value for a class, the value in brackets for an
  attribute, \<^verbatim>\<open>:\<close> and the value for a pseudo-class, \<^verbatim>\<open>::\<close> and the value
  for a pseudo-element.
\<close>

fun fragment_text :: "kind \<Rightarrow> string \<Rightarrow> string" where
  "fragment_text Element v = v"
| "fragment_text Id v = ''#'' @ v"
| "fragment_text Class v = ''.'' @ v"
| "fragment_text Attr v = ''['' @ v @ '']''"
| "fragment_text PseudoClass v = '':'' @ v"
| "fragment_text PseudoElement v = ''::'' @ v"

fun fragments_text :: "(kind \<times> string) list \<Rightarrow> string" where
  "fragments_text [] = []"
| "fragments_text ((k, v) # fs) = fragment_text k v @ fragments_text fs"

text \<open>
  The canonical order element < id < class < attribute < pseudo-class < pseudo-element,
  the greatest rank present in a history (none in an empty one), and the two rules of
  validation: a singular kind already present is a duplicate; otherwise a greater rank
  already present is an order violation; otherwise the call is accepted.
\<close>

fun rank :: "kind \<Rightarrow> nat" where
  "rank Element = 0"
| "rank Id = 1"
| "rank Class = 2"
| "rank Attr = 3"
| "rank PseudoClass = 4"
| "rank PseudoElement = 5"

fun max_rank :: "kind list \<Rightarrow> nat option" where
  "max_rank [] = None"
| "max_rank (k # ks) =
     (case max_rank ks of None \<Rightarrow> Some (rank k) | Some m \<Rightarrow> Some (max (rank k) m))"

definition singular :: "kind \<Rightarrow> bool" where
  "singular k = (k = Element \<or> k = Id \<or> k = PseudoElement)"

definition exceeds :: "kind list \<Rightarrow> kind \<Rightarrow> bool" where
  "exceeds ks k = (case max_rank ks of None \<Rightarrow> False | Some m \<Rightarrow> rank k < m)"

definition validate_reference :: "kind \<Rightarrow> kind list \<Rightarrow> error + bool" where
  "validate_reference k ks =
     (if singular k \<and> k \<in> set ks then Inl (Error duplicate_message)
      else if exceeds ks k then Inl (Error order_message)
      else Inr True)"

text \<open>
  All arguments joined in call order with exactly one space between neighbours; the
  text an argument stands for (a string itself, an object's accumulated text); the
  objects among the arguments; and the store in which a list of objects has been
  rendered, each left empty.
\<close>

fun join_space :: "string list \<Rightarrow> string" where
  "join_space [] = []"
| "join_space [x] = x"
| "join_space (x # y # zs) = x @ '' '' @ join_space (y # zs)"

fun arg_text :: "heap \<Rightarrow> arg \<Rightarrow> string" where
  "arg_text h (Str s) = s"
| "arg_text h (Obj a) = line (h ! a)"

fun arg_objs :: "arg list \<Rightarrow> addr list" where
  "arg_objs [] = []"
| "arg_objs (Str s # xs) = arg_objs xs"
| "arg_objs (Obj a # xs) = a # arg_objs xs"

fun clear_all :: "addr list \<Rightarrow> heap \<Rightarrow> heap" where
  "clear_all [] h = h"
| "clear_all (a # as) h = clear_all as (h[a := empty_builder])"

subsection \<open>Example stores\<close>

text \<open>
  The store after \<^verbatim>\<open>cssSelectorBuilder.element('div')\<close>; the store after
  \<^verbatim>\<open>id('main')\<close> is then called on that object; the store after
  \<^verbatim>\<open>element('div')\<close> and \<^verbatim>\<open>element('table')\<close> have each been called on
  \<^verbatim>\<open>cssSelectorBuilder\<close>; and the store after \<^verbatim>\<open>element('a')\<close>,
  \<^verbatim>\<open>element('b')\<close>, \<^verbatim>\<open>element('c')\<close> and \<^verbatim>\<open>element('d')\<close> have
  each been called on \<^verbatim>\<open>cssSelectorBuilder\<close>. The lemma \<open>example_stores_built\<close>
  below runs these calls.
\<close>

definition div_heap :: heap where
  "div_heap = [empty_builder, \<lparr>line = ''div'', order = [Element]\<rparr>]"

definition div_main_heap :: heap where
  "div_main_heap =
     [empty_builder, empty_builder, \<lparr>line = ''div#main'', order = [Element, Id]\<rparr>]"

definition div_table_heap :: heap where
  "div_table_heap =
     [empty_builder,
      \<lparr>line = ''div'', order = [Element]\<rparr>,
      \<lparr>line = ''table'', order = [Element]\<rparr>]"

definition four_selectors :: heap where
  "four_selectors =
     [empty_builder,
      \<lparr>line = ''a'', order = [Element]\<rparr>,
      \<lparr>line = ''b'', order = [Element]\<rparr>,
      \<lparr>line = ''c'', order = [Element]\<rparr>,
      \<lparr>line = ''d'', order = [Element]\<rparr>]"

subsection \<open>The example of the documentation\<close>

text \<open>
  The comment above \<^verbatim>\<open>cssSelectorBuilder\<close> gives this expression and its value:
  \<^verbatim>\<open>builder.combine(
    builder.element('div').id('main').class('container').class('draggable'), '+',
    builder.combine(builder.element('table').id('data'), '~',
      builder.combine(builder.element('tr').pseudoClass('nth-of-type(even)'), ' ',
        builder.element('td').pseudoClass('nth-of-type(even)')))).stringify()\<close>.
  The arguments of a call are evaluated from left to right, so the four chains run
  first, then the innermost \<^verbatim>\<open>combine\<close>, then the two around it.
\<close>

definition documented_example :: "string option" where
  "documented_example =
     (case chain cssSelectorBuilder
             [(Element, ''div''), (Id, ''main''), (Class, ''container''), (Class, ''draggable'')]
             initial_heap of
        Inl e \<Rightarrow> None
      | Inr (x, h1) \<Rightarrow>
     (case chain cssSelectorBuilder [(Element, ''table''), (Id, ''data'')] h1 of
        Inl e \<Rightarrow> None
      | Inr (y, h2) \<Rightarrow>
     (case chain cssSelectorBuilder [(Element, ''tr''), (PseudoClass, ''nth-of-type(even)'')] h2 of
        Inl e \<Rightarrow> None
      | Inr (z, h3) \<Rightarrow>
     (case chain cssSelectorBuilder [(Element, ''td''), (PseudoClass, ''nth-of-type(even)'')] h3 of
        Inl e \<Rightarrow> None
      | Inr (w, h4) \<Rightarrow>
          (let (r1, h5) = combine cssSelectorBuilder [Obj z, Str '' '', Obj w] h4;
               (r2, h6) = combine cssSelectorBuilder [Obj y, Str ''~'', Obj r1] h5;
               (r3, h7) = combine cssSelectorBuilder [Obj x, Str ''+'', Obj r2] h6
           in Some (fst (stringify r3 h7)))))))"

section \<open>Basic facts about the store\<close>

lemma builder_line_update: "r\<lparr>line := s\<rparr> = \<lparr>line = s, order = order r\<rparr>"
  by (cases r) simp

lemma builder_order_update: "r\<lparr>order := ks\<rparr> = \<lparr>line = line r, order = ks\<rparr>"
  by (cases r) simp

lemma set_line_eq: "set_line a s h = h[a := \<lparr>line = s, order = order (h ! a)\<rparr>]"
  by (simp add: set_line_def builder_line_update)

lemma set_order_eq: "set_order a ks h = h[a := \<lparr>line = line (h ! a), order = ks\<rparr>]"
  by (simp add: set_order_def builder_order_update)

lemma length_set_line [simp]: "length (set_line a s h) = length h"
  by (simp add: set_line_def)

lemma length_set_order [simp]: "length (set_order a ks h) = length h"
  by (simp add: set_order_def)

lemma length_append_line [simp]: "length (append_line a s h) = length h"
  by (simp add: append_line_def)

lemma length_push_order [simp]: "length (push_order a k h) = length h"
  by (simp add: push_order_def)

lemma append_line_eq:
  "a < length h \<Longrightarrow>
   append_line a s h = h[a := \<lparr>line = line (h ! a) @ s, order = order (h ! a)\<rparr>]"
  by (simp add: append_line_def set_line_eq)

lemma push_order_eq:
  "a < length h \<Longrightarrow>
   push_order a k h = h[a := \<lparr>line = line (h ! a), order = order (h ! a) @ [k]\<rparr>]"
  by (simp add: push_order_def set_order_eq)

lemmas method_defs =
  element_def id_sel_def class_sel_def attr_def pseudoClass_def pseudoElement_def

lemmas method_simps =
  method_defs append_line_eq push_order_eq object_create_def set_line_eq set_order_eq
  empty_builder_def Let_def nth_append list_update_append

lemmas validate_defs = validate_def validate_duplicate_def validate_order_def truthy_or_def

lemma stringify_eq: "stringify a h = (line (h ! a), h[a := empty_builder])"
  by (cases "a < length h")
    (simp_all add: stringify_def set_line_eq set_order_eq empty_builder_def list_update_beyond)

lemma toString_eq: "toString a h = (line (h ! a), h[a := empty_builder])"
  by (cases "a < length h")
    (simp_all add: toString_def set_line_eq set_order_eq empty_builder_def list_update_beyond)

section \<open>The fragment methods, summarised\<close>

text \<open>
  A fragment method fails exactly as \<open>validate\<close> does on the history of its receiver;
  when \<open>validate\<close> accepts, the new object is the next entry of the store and holds
  the receiver's text followed by the fragment and the receiver's history followed by
  the kind, and the receiver is left empty.
\<close>

lemma add_fragment_error:
  "validate k (order (h ! a)) = Inl e \<Longrightarrow> add_fragment k a v h = Inl e"
  by (cases k)
    (simp_all add: method_defs split: prod.splits)

lemma add_fragment_success:
  assumes "validate k (order (h ! a)) = Inr b" and "a < length h"
  shows "add_fragment k a v h =
         Inr (length h, h[a := empty_builder] @
               [\<lparr>line = line (h ! a) @ fragment_text k v, order = order (h ! a) @ [k]\<rparr>])"
  using assms
  by (cases k)
    (simp_all add: method_simps)

section \<open>validate against the two rules\<close>

lemma exceeds_iff: "exceeds ks k = (\<exists>k'\<in>set ks. rank k < rank k')"
  by (induction ks) (auto simp: exceeds_def split: option.splits)

lemma rank_less_cases:
  "rank Element < rank k' =
     (k' = PseudoElement \<or> k' = Class \<or> k' = PseudoClass \<or> k' = Attr \<or> k' = Id)"
  "rank Id < rank k' = (k' = PseudoElement \<or> k' = Class \<or> k' = PseudoClass \<or> k' = Attr)"
  "rank Class < rank k' = (k' = PseudoElement \<or> k' = Attr \<or> k' = PseudoClass)"
  "rank Attr < rank k' = (k' = PseudoElement \<or> k' = PseudoClass)"
  "rank PseudoClass < rank k' = (k' = PseudoElement)"
  "rank PseudoElement < rank k' = False"
  by (cases k'; simp)+

lemma validate_order_iff:
  "validate_order k ks = (if exceeds ks k then Some (Error order_message) else None)"
  by (cases k;
      simp only: validate_order_def exceeds_iff rank_less_cases truthy_or_def kind.case;
      auto)

lemma validate_duplicate_iff:
  "validate_duplicate k ks =
     (if singular k \<and> k \<in> set ks then Some (Error duplicate_message) else None)"
  by (cases k) (simp_all add: validate_duplicate_def singular_def)

lemma validate_eq: "validate k ks = validate_reference k ks"
  by (simp add: validate_def validate_reference_def validate_duplicate_iff validate_order_iff)

lemma validate_ok:
  assumes "\<forall>k'\<in>set ks. rank k' < rank k"
  shows "validate k ks = Inr True"
proof -
  have "k \<notin> set ks" using assms by auto
  moreover have "\<not> exceeds ks k" using assms by (auto simp: exceeds_iff dest: bspec)
  ultimately show ?thesis by (simp add: validate_eq validate_reference_def)
qed

lemma validate_Inr: "validate k ks = Inr b \<Longrightarrow> b"
  by (simp add: validate_eq validate_reference_def split: if_splits)

lemma rank_inj: "rank a = rank b \<Longrightarrow> a = b"
  by (cases a; cases b; simp)

section \<open>Chains in canonical order\<close>

lemma chain_ok:
  assumes "sorted (map (rank \<circ> fst) fs)" and "distinct (map fst fs)"
    and "\<forall>k'\<in>set (order (h ! a)). \<forall>k\<in>set (map fst fs). rank k' < rank k"
    and "a < length h"
  shows "\<exists>a' h'. chain a fs h = Inr (a', h') \<and> a' < length h' \<and>
           line (h' ! a') = line (h ! a) @ fragments_text fs"
  using assms
proof (induction fs arbitrary: a h)
  case Nil
  then show ?case by simp
next
  case (Cons f fs)
  obtain k v where f: "f = (k, v)" by (cases f)
  let ?new = "\<lparr>line = line (h ! a) @ fragment_text k v, order = order (h ! a) @ [k]\<rparr>"
  let ?h1 = "h[a := empty_builder] @ [?new]"
  have "validate k (order (h ! a)) = Inr True"
    using Cons.prems(3) by (intro validate_ok) (simp add: f)
  then have step: "add_fragment k a v h = Inr (length h, ?h1)"
    using Cons.prems(4) by (rule add_fragment_success)
  have new: "?h1 ! length h = ?new"
    by (simp add: nth_append)
  have later: "\<forall>k''\<in>set (map fst fs). rank k < rank k''"
  proof
    fix k'' assume k'': "k'' \<in> set (map fst fs)"
    then have "rank k \<le> rank k''" using Cons.prems(1) by (auto simp: f)
    moreover have "k \<noteq> k''" using Cons.prems(2) k'' by (auto simp: f)
    ultimately show "rank k < rank k''"
      using rank_inj [of k k''] by (cases "rank k = rank k''") auto
  qed
  have "\<exists>a' h'. chain (length h) fs ?h1 = Inr (a', h') \<and> a' < length h' \<and>
           line (h' ! a') = line (?h1 ! length h) @ fragments_text fs"
  proof (rule Cons.IH)
    show "sorted (map (rank \<circ> fst) fs)" using Cons.prems(1) by (simp add: comp_def)
    show "distinct (map fst fs)" using Cons.prems(2) by simp
    show "\<forall>k'\<in>set (order (?h1 ! length h)). \<forall>k\<in>set (map fst fs). rank k' < rank k"
      using Cons.prems(3) later unfolding new by (auto simp: f)
    show "length h < length ?h1" by simp
  qed
  then show ?case unfolding new by (simp add: f step)
qed

section \<open>The loop of combine\<close>

lemma length_clear_all [simp]: "length (clear_all as h) = length h"
  by (induction as arbitrary: h) simp_all

lemma nth_clear_all_other: "a \<notin> set as \<Longrightarrow> clear_all as h ! a = h ! a"
  by (induction as arbitrary: h) auto

lemma join_space_Cons:
  "join_space (x # xs) = x @ (if xs = [] then [] else '' '' @ join_space xs)"
  by (cases xs) simp_all

lemma to_primitive_eq: "to_primitive x h = (arg_text h x, clear_all (arg_objs [x]) h)"
  by (cases x) (simp_all add: toString_eq)

lemma arg_text_update:
  "a \<notin> set (arg_objs xs) \<Longrightarrow> map (arg_text (h[a := b])) xs = map (arg_text h) xs"
  by (induction xs rule: arg_objs.induct) auto

lemma arg_text_clear:
  "set as \<inter> set (arg_objs xs) = {} \<Longrightarrow>
   map (arg_text (clear_all as h)) xs = map (arg_text h) xs"
proof (induction as arbitrary: h)
  case Nil
  then show ?case by simp
next
  case (Cons a as)
  have "map (arg_text (clear_all as (h[a := empty_builder]))) xs =
        map (arg_text (h[a := empty_builder])) xs"
    using Cons.prems by (intro Cons.IH) auto
  also have "\<dots> = map (arg_text h) xs"
    using Cons.prems by (intro arg_text_update) auto
  finally show ?case by simp
qed

text \<open>
  Run from index \<open>i\<close> on arguments whose objects are pairwise different, the loop
  appends the remaining arguments joined by single spaces, each object read in the store
  the loop started in, and leaves those objects empty.
\<close>

lemma combine_loop_eq:
  "distinct (arg_objs (drop i args)) \<Longrightarrow>
   combine_loop args i temp h =
     (temp @ join_space (map (arg_text h) (drop i args)),
      clear_all (arg_objs (drop i args)) h)"
proof (induction args i temp h rule: combine_loop.induct)
  case (1 args i temp h)
  show ?case
  proof (cases "i < length args")
    case False
    then show ?thesis by (simp add: combine_loop.simps)
  next
    case True
    define x where "x = args ! i"
    define rest where "rest = drop (Suc i) args"
    define h1 where "h1 = clear_all (arg_objs [x]) h"
    define temp2 where
      "temp2 = (if i < length args - 1 then (temp @ arg_text h x) @ '' ''
                else temp @ arg_text h x)"
    have drop: "drop i args = x # rest"
      using True by (simp add: x_def rest_def Cons_nth_drop_Suc)
    have dist: "distinct (arg_objs [x] @ arg_objs rest)"
      using "1.prems" unfolding drop by (cases x) simp_all
    have rest_empty: "(i < length args - 1) = (rest \<noteq> [])"
      using True by (auto simp: rest_def)
    have IH: "combine_loop args (i + 1) temp2 h1 =
        (temp2 @ join_space (map (arg_text h1) rest), clear_all (arg_objs rest) h1)"
    proof -
      have tp: "(arg_text h x, h1) = to_primitive (args ! i) h"
        by (simp add: to_primitive_eq x_def h1_def)
      have "distinct (arg_objs (drop (i + 1) args))"
        using dist by (simp add: rest_def)
      from "1.IH" [OF True refl tp refl refl this] show ?thesis
        by (simp add: temp2_def rest_def)
    qed
    have texts: "map (arg_text h1) rest = map (arg_text h) rest"
      unfolding h1_def using dist by (intro arg_text_clear) auto
    have heap: "clear_all (arg_objs rest) h1 = clear_all (arg_objs (x # rest)) h"
      unfolding h1_def by (cases x) simp_all
    have "combine_loop args i temp h = combine_loop args (i + 1) temp2 h1"
      using True
      by (subst combine_loop.simps) (simp add: to_primitive_eq x_def h1_def temp2_def)
    also have "\<dots> =
        (temp2 @ join_space (map (arg_text h) rest), clear_all (arg_objs (x # rest)) h)"
      by (simp only: IH texts heap)
    also have "temp2 @ join_space (map (arg_text h) rest) =
        temp @ join_space (map (arg_text h) (x # rest))"
      using rest_empty by (cases "rest = []") (simp_all add: temp2_def join_space_Cons)
    finally show ?thesis by (simp add: drop)
  qed
qed

lemma combine_eq:
  "distinct (arg_objs args) \<Longrightarrow>
   combine this args h =
     (this, set_line this (join_space (map (arg_text h) args)) (clear_all (arg_objs args) h))"
  by (simp add: combine_def combine_loop_eq)

lemma add_fragment_accepted:
  "validate k (order (h ! a)) = Inr b \<Longrightarrow> \<exists>r. add_fragment k a v h = Inr r"
  by (cases k) (simp_all add: method_defs Let_def split: prod.splits)

lemma fragments_text_concat:
  "fragments_text fs = concat (map (\<lambda>(k, v). fragment_text k v) fs)"
  by (induction fs rule: fragments_text.induct) simp_all

lemma nth_set_line_same: "a < length h \<Longrightarrow> line (set_line a s h ! a) = s"
  by (simp add: set_line_eq)

lemma nth_set_line_other: "a \<noteq> b \<Longrightarrow> set_line a s h ! b = h ! b"
  by (simp add: set_line_eq)

section \<open>The example stores are stores of the program\<close>

lemma example_stores_built:
  "element cssSelectorBuilder ''div'' initial_heap = Inr (1, div_heap)"
  "id_sel 1 ''main'' div_heap = Inr (2, div_main_heap)"
  "element cssSelectorBuilder ''table'' div_heap = Inr (2, div_table_heap)"
  "element cssSelectorBuilder ''a'' initial_heap = Inr (1, take 2 four_selectors)"
  "element cssSelectorBuilder ''b'' (take 2 four_selectors) = Inr (2, take 3 four_selectors)"
  "element cssSelectorBuilder ''c'' (take 3 four_selectors) = Inr (3, take 4 four_selectors)"
  "element cssSelectorBuilder ''d'' (take 4 four_selectors) = Inr (4, four_selectors)"
  by (simp_all add: method_simps validate_defs cssSelectorBuilder_def initial_heap_def
      empty_builder_def div_heap_def div_main_heap_def div_table_heap_def four_selectors_def)

section \<open>The model gives the documented results\<close>

text \<open>
  The two examples of the comment above \<^verbatim>\<open>cssSelectorBuilder\<close> that the claims
  below do not cover: a chain with a repeated class, and the combination nested on the
  right.
\<close>

lemma documented_chain_value:
  "(case chain cssSelectorBuilder [(Id, ''main''), (Class, ''container''), (Class, ''editable'')]
           initial_heap of
      Inl e \<Rightarrow> None
    | Inr (obj, h) \<Rightarrow> Some (fst (stringify obj h))) = Some ''#main.container.editable''"
  by (simp add: method_simps validate_defs cssSelectorBuilder_def initial_heap_def stringify_eq)

lemma documented_example_value:
  "documented_example =
     Some ''div#main.container.draggable + table#data ~ tr:nth-of-type(even)   td:nth-of-type(even)''"
  by (simp add: documented_example_def method_simps validate_defs cssSelectorBuilder_def
      initial_heap_def combine_eq stringify_eq)

section \<open>Two results of combine are one object\<close>

text \<open>
  \<open>combine\<close> stores its result in the receiver and returns the receiver. When the same
  object stands twice among the arguments, its first conversion to a string empties it
  and the second one yields the empty string.
\<close>

lemma combine_twice_same_object:
  assumes "a < length h"
  shows "combine this [Obj a, Str tok, Obj a] h =
           (this, set_line this (line (h ! a) @ '' '' @ tok @ '' '') (h[a := empty_builder]))"
  using assms
  by (simp add: combine_def combine_loop.simps [of _ 0] combine_loop.simps [of _ "Suc 0"]
      combine_loop.simps [of _ "Suc (Suc 0)"] combine_loop.simps [of _ "Suc (Suc (Suc 0))"]
      toString_eq empty_builder_def)

text \<open>
  Both inner calls of a nested combination are made on \<^verbatim>\<open>cssSelectorBuilder\<close> and
  both return it, so the second inner call overwrites the text of the first, and the
  outer call receives the same object twice: whatever the four selectors and the two
  tokens are, the text of the first two selectors is lost.
\<close>

lemma nested_combine_eq:
  assumes "distinct [cssSelectorBuilder, a, b, c, d]" and "cssSelectorBuilder < length h"
  shows "fst (nested_combine a t1 b c t2 d h) =
           line (h ! c) @ '' '' @ t2 @ '' '' @ line (h ! d) @ '' ~ ''"
proof -
  define h1 where "h1 = snd (combine cssSelectorBuilder [Obj a, Str t1, Obj b] h)"
  define h2 where "h2 = snd (combine cssSelectorBuilder [Obj c, Str t2, Obj d] h1)"
  have "distinct (arg_objs [Obj a, Str t1, Obj b])" using assms(1) by simp
  note first = combine_eq [OF this, of cssSelectorBuilder h]
  have c1: "combine cssSelectorBuilder [Obj a, Str t1, Obj b] h = (cssSelectorBuilder, h1)"
    by (simp add: h1_def first)
  have h1: "length h1 = length h" "h1 ! c = h ! c" "h1 ! d = h ! d"
    using assms(1) by (simp_all add: h1_def first nth_set_line_other)
  have "distinct (arg_objs [Obj c, Str t2, Obj d])" using assms(1) by simp
  note second = combine_eq [OF this, of cssSelectorBuilder h1]
  have c2: "combine cssSelectorBuilder [Obj c, Str t2, Obj d] h1 = (cssSelectorBuilder, h2)"
    by (simp add: h2_def second)
  have len: "cssSelectorBuilder < length h2"
    using assms(2) by (simp add: h2_def second h1)
  have l2: "line (h2 ! cssSelectorBuilder) = line (h ! c) @ '' '' @ t2 @ '' '' @ line (h ! d)"
    using assms(2) by (simp add: h2_def second nth_set_line_same h1)
  show ?thesis
    using len
    by (simp add: nested_combine_def c1 c2 combine_twice_same_object stringify_eq
        nth_set_line_same l2)
qed

section \<open>The claims\<close>

subsection \<open>C1: what a fragment method does to its receiver\<close>

text \<open>
  Claim C1 says that a successful fragment method leaves the object it was called on
  unchanged. It does not: \<^verbatim>\<open>cssSelectorBuilder.element('div')\<close> returns object 1
  with text \<^verbatim>\<open>div\<close> and history \<^verbatim>\<open>['element']\<close>, and after
  \<^verbatim>\<open>id('main')\<close> has been called on object 1 with success, object 1 has the empty
  text and the empty history.
\<close>

theorem fragment_add_changes_receiver_counterexample:
  "element cssSelectorBuilder ''div'' initial_heap = Inr (1, div_heap) \<and>
   id_sel 1 ''main'' div_heap = Inr (2, div_main_heap) \<and>
   line (div_heap ! 1) = ''div'' \<and> order (div_heap ! 1) = [Element] \<and>
   line (div_main_heap ! 1) = [] \<and> order (div_main_heap ! 1) = [] \<and>
   div_main_heap ! 1 \<noteq> div_heap ! 1"
  by (simp add: method_simps validate_defs cssSelectorBuilder_def initial_heap_def
      empty_builder_def div_heap_def div_main_heap_def)

text \<open>
  Claim C1, amended. A successful fragment method called on an object \<open>s\<close> leaves
  \<open>s\<close> with the empty text and the empty kind history, whatever \<open>s\<close> held before, so
  \<open>s\<close> is unchanged exactly when it was empty before the call, as
  \<^verbatim>\<open>cssSelectorBuilder\<close> at rest is. Every other object that existed before the call
  is unchanged, and the returned object is a new one that holds the text of \<open>s\<close>
  followed by the fragment and the history of \<open>s\<close> followed by the kind.
\<close>

theorem fragment_add_resets_receiver:
  assumes "add_fragment k s v h = Inr (obj, h')" and "s < length h"
  shows "h' ! s = empty_builder \<and>
         (h' ! s = h ! s) = (h ! s = empty_builder) \<and>
         (\<forall>a<length h. a \<noteq> s \<longrightarrow> h' ! a = h ! a) \<and>
         obj = length h \<and> length h' = Suc (length h) \<and>
         h' ! obj = \<lparr>line = line (h ! s) @ fragment_text k v, order = order (h ! s) @ [k]\<rparr>"
proof (cases "validate k (order (h ! s))")
  case (Inl e)
  then show ?thesis using add_fragment_error [OF Inl, of v] assms(1) by simp
next
  case (Inr b)
  from add_fragment_success [OF Inr assms(2), of v] assms(1)
  have obj: "obj = length h"
    and h': "h' = h[s := empty_builder] @
      [\<lparr>line = line (h ! s) @ fragment_text k v, order = order (h ! s) @ [k]\<rparr>]"
    by simp_all
  show ?thesis using assms(2) by (auto simp: obj h' nth_append)
qed

text \<open>
  The amended claim at \<^verbatim>\<open>id('main')\<close> called on the object that
  \<^verbatim>\<open>cssSelectorBuilder.element('div')\<close> returned.
\<close>

theorem fragment_add_resets_receiver_witness:
  "add_fragment Id 1 ''main'' div_heap = Inr (2, div_main_heap) \<and>
   (1::nat) < length div_heap \<and>
   div_main_heap ! 1 = empty_builder \<and>
   div_main_heap ! 1 \<noteq> div_heap ! 1 \<and>
   div_main_heap ! 0 = div_heap ! 0 \<and>
   div_main_heap ! 2 = \<lparr>line = ''div#main'', order = [Element, Id]\<rparr>"
proof -
  have call: "add_fragment Id 1 ''main'' div_heap = Inr (2, div_main_heap)"
    by (simp add: method_simps validate_defs empty_builder_def div_heap_def div_main_heap_def)
  have len: "(1::nat) < length div_heap" by (simp add: div_heap_def)
  have "div_heap ! 1 \<noteq> empty_builder" by (simp add: div_heap_def empty_builder_def)
  then show ?thesis
    using call len fragment_add_resets_receiver [OF call len]
    by (simp add: div_heap_def div_main_heap_def)
qed

subsection \<open>C2: chains in canonical order\<close>

text \<open>
  Claim C2. For every sequence of distinct fragment kinds listed in an order consistent
  with the canonical order, and for arbitrary string values, the chain of the
  corresponding methods started on \<^verbatim>\<open>cssSelectorBuilder\<close> (at rest: empty text, empty
  history) raises no error, and rendering the object it returns gives the concatenation,
  in call order, of the rendered forms of the fragments.
\<close>

theorem chain_in_canonical_order:
  assumes "distinct (map fst fs)" and "sorted (map (rank \<circ> fst) fs)"
    and "cssSelectorBuilder < length h" and "h ! cssSelectorBuilder = empty_builder"
  shows "\<exists>obj h'. chain cssSelectorBuilder fs h = Inr (obj, h') \<and>
           fst (stringify obj h') = concat (map (\<lambda>(k, v). fragment_text k v) fs)"
proof -
  have "\<forall>k'\<in>set (order (h ! cssSelectorBuilder)). \<forall>k\<in>set (map fst fs). rank k' < rank k"
    by (simp add: assms(4) empty_builder_def)
  from chain_ok [OF assms(2) assms(1) this assms(3)]
  obtain obj h' where "chain cssSelectorBuilder fs h = Inr (obj, h')"
    and "line (h' ! obj) = line (h ! cssSelectorBuilder) @ fragments_text fs"
    by blast
  then show ?thesis
    by (simp add: stringify_eq assms(4) empty_builder_def fragments_text_concat)
qed

text \<open>
  The example of the documentation:
  \<^verbatim>\<open>builder.element('a').attr('href$=".png"').pseudoClass('focus').stringify()\<close>.
\<close>

theorem chain_in_canonical_order_witness:
  \<open>distinct (map fst [(Element, ''a''), (Attr, ''href$=".png"''), (PseudoClass, ''focus'')]) \<and>
   sorted (map (rank \<circ> fst)
     [(Element, ''a''), (Attr, ''href$=".png"''), (PseudoClass, ''focus'')]) \<and>
   cssSelectorBuilder < length initial_heap \<and>
   initial_heap ! cssSelectorBuilder = empty_builder \<and>
   (\<exists>obj h'. chain cssSelectorBuilder
        [(Element, ''a''), (Attr, ''href$=".png"''), (PseudoClass, ''focus'')] initial_heap =
        Inr (obj, h') \<and>
      fst (stringify obj h') = ''a[href$=".png"]:focus'')\<close>
proof -
  let ?fs = \<open>[(Element, ''a''), (Attr, ''href$=".png"''), (PseudoClass, ''focus'')]\<close>
  have d: "distinct (map fst ?fs)" by simp
  have s: "sorted (map (rank \<circ> fst) ?fs)" by simp
  have l: "cssSelectorBuilder < length initial_heap"
    by (simp add: cssSelectorBuilder_def initial_heap_def)
  have e: "initial_heap ! cssSelectorBuilder = empty_builder"
    by (simp add: cssSelectorBuilder_def initial_heap_def)
  show ?thesis
    using d s l e chain_in_canonical_order [OF d s l e] by simp
qed

subsection \<open>C3: a combination of two combinations\<close>

text \<open>
  Claim C3 says that
  \<^verbatim>\<open>combine(combine(a, t1, b), '~', combine(c, t2, d))\<close> renders as the texts of
  \<open>a\<close>, \<open>b\<close>, \<open>c\<close>, \<open>d\<close> and the tokens joined by single spaces. The source renders
  the texts of \<open>c\<close> and \<open>d\<close> only, followed by the outer token and a space (lemma
  \<open>nested_combine_eq\<close>). Here the four selectors are \<^verbatim>\<open>a\<close>, \<^verbatim>\<open>b\<close>,
  \<^verbatim>\<open>c\<close>, \<^verbatim>\<open>d\<close> (objects 1 to 4 of \<open>four_selectors\<close>) and the tokens are
  \<^verbatim>\<open>+\<close> and \<^verbatim>\<open>>\<close>: the result is \<^verbatim>\<open>c > d ~ \<close> where the claim expects
  \<^verbatim>\<open>a + b ~ c > d\<close>.
\<close>

theorem nested_combine_drops_left_operand:
  "fst (nested_combine 1 ''+'' 2 3 ''>'' 4 four_selectors) = ''c > d ~ '' \<and>
   fst (nested_combine 1 ''+'' 2 3 ''>'' 4 four_selectors) \<noteq> ''a + b ~ c > d''"
proof -
  have "distinct [cssSelectorBuilder, 1, 2, 3, 4]" by (simp add: cssSelectorBuilder_def)
  moreover have "cssSelectorBuilder < length four_selectors"
    by (simp add: cssSelectorBuilder_def four_selectors_def)
  ultimately have "fst (nested_combine 1 ''+'' 2 3 ''>'' 4 four_selectors) =
      line (four_selectors ! 3) @ '' '' @ ''>'' @ '' '' @ line (four_selectors ! 4) @ '' ~ ''"
    by (rule nested_combine_eq)
  then show ?thesis by (simp add: four_selectors_def)
qed

subsection \<open>C4: validate and the two rules\<close>

text \<open>
  Claim C4. For every fragment kind and every kind history, \<open>validate\<close> behaves as
  the two-rule reference: it raises the duplicate error exactly when the kind is one of
  element, id and pseudo-element and is already in the history; otherwise it raises the
  order error exactly when the greatest canonical rank in the history exceeds the rank
  of the kind; otherwise it succeeds. The duplicate rule comes first, and every
  fragment method fails or succeeds as these rules say on the history of its receiver.
\<close>

theorem validate_two_rules:
  "validate k ks = validate_reference k ks \<and>
   (case add_fragment k s v h of Inl e \<Rightarrow> Inl e | Inr r \<Rightarrow> Inr True) =
     validate_reference k (order (h ! s))"
proof (cases "validate k (order (h ! s))")
  case (Inl e)
  then show ?thesis
    using add_fragment_error [OF Inl, of v] by (simp add: validate_eq)
next
  case (Inr b)
  have b by (rule validate_Inr [OF Inr])
  moreover obtain r where "add_fragment k s v h = Inr r"
    using add_fragment_accepted [OF Inr] by blast
  ultimately show ?thesis
    using Inr by (simp add: validate_eq)
qed

subsection \<open>C5: the duplicate error\<close>

text \<open>
  Claim C5 gives the message of the duplicate error with the words
  \<^verbatim>\<open>more than one time\<close>. The source throws it with the words
  \<^verbatim>\<open>more then one time\<close>: \<^verbatim>\<open>cssSelectorBuilder.element('table').element('div')\<close>
  raises an error whose message is not the one of the claim.
\<close>

theorem duplicate_message_counterexample:
  "element cssSelectorBuilder ''table'' initial_heap =
     Inr (1, [empty_builder, \<lparr>line = ''table'', order = [Element]\<rparr>]) \<and>
   element 1 ''div'' [empty_builder, \<lparr>line = ''table'', order = [Element]\<rparr>] =
     Inl (Error ''Element, id and pseudo-element should not occur more then one time inside the selector'') \<and>
   element 1 ''div'' [empty_builder, \<lparr>line = ''table'', order = [Element]\<rparr>] \<noteq>
     Inl (Error ''Element, id and pseudo-element should not occur more than one time inside the selector'')"
  by (simp add: method_simps validate_defs cssSelectorBuilder_def initial_heap_def
      empty_builder_def duplicate_message_def)

text \<open>
  Claim C5, amended. Adding element, id or pseudo-element to an object whose history
  already holds that kind raises the duplicate error, whose message is exactly
  \<^verbatim>\<open>Element, id and pseudo-element should not occur more then one time inside the
  selector\<close>.
\<close>

theorem duplicate_singular_raises:
  assumes "k = Element \<or> k = Id \<or> k = PseudoElement" and "k \<in> set (order (h ! s))"
  shows "add_fragment k s v h =
    Inl (Error ''Element, id and pseudo-element should not occur more then one time inside the selector'')"
proof -
  have "validate k (order (h ! s)) = Inl (Error duplicate_message)"
    using assms by (simp add: validate_eq validate_reference_def singular_def)
  then show ?thesis
    using add_fragment_error [of k h s "Error duplicate_message" v]
    by (simp add: duplicate_message_def)
qed

text \<open>
  The amended claim at a second element, a second id and a second pseudo-element.
\<close>

theorem duplicate_singular_raises_witness:
  "Id \<in> set (order (div_main_heap ! 2)) \<and>
   PseudoElement \<in>
     set (order ([empty_builder, \<lparr>line = ''::after'', order = [PseudoElement]\<rparr>] ! 1)) \<and>
   Element \<in> set (order (div_heap ! 1)) \<and>
   element 1 ''p'' div_heap =
     Inl (Error ''Element, id and pseudo-element should not occur more then one time inside the selector'') \<and>
   id_sel 2 ''other'' div_main_heap =
     Inl (Error ''Element, id and pseudo-element should not occur more then one time inside the selector'') \<and>
   pseudoElement 1 ''before'' [empty_builder, \<lparr>line = ''::after'', order = [PseudoElement]\<rparr>] =
     Inl (Error ''Element, id and pseudo-element should not occur more then one time inside the selector'')"
proof -
  let ?h = "[empty_builder, \<lparr>line = ''::after'', order = [PseudoElement]\<rparr>]"
  have a: "Element \<in> set (order (div_heap ! 1))" by (simp add: div_heap_def)
  have b: "Id \<in> set (order (div_main_heap ! 2))" by (simp add: div_main_heap_def)
  have c: "PseudoElement \<in> set (order (?h ! 1))" by simp
  show ?thesis
    using a b c
      duplicate_singular_raises [of Element div_heap 1 "''p''", OF _ a]
      duplicate_singular_raises [of Id div_main_heap 2 "''other''", OF _ b]
      duplicate_singular_raises [of PseudoElement ?h 1 "''before''", OF _ c]
    by simp
qed

subsection \<open>C6: the order error\<close>

text \<open>
  Claim C6. Adding an id to an object whose history holds a class (and no id, which
  would be a duplicate) raises the order error, and adding an attribute to an object
  whose history holds a pseudo-class raises the order error, in both cases with exactly
  the message \<^verbatim>\<open>Selector parts should be arranged in the following order: element,
  id, class, attribute, pseudo-class, pseudo-element\<close>.
\<close>

theorem order_violation_raises:
  "(Class \<in> set (order (h ! s)) \<and> Id \<notin> set (order (h ! s)) \<longrightarrow>
      id_sel s v h =
        Inl (Error ''Selector parts should be arranged in the following order: element, id, class, attribute, pseudo-class, pseudo-element'')) \<and>
   (PseudoClass \<in> set (order (h ! s)) \<longrightarrow>
      attr s v h =
        Inl (Error ''Selector parts should be arranged in the following order: element, id, class, attribute, pseudo-class, pseudo-element''))"
proof (intro conjI impI)
  assume "Class \<in> set (order (h ! s)) \<and> Id \<notin> set (order (h ! s))"
  then have "validate Id (order (h ! s)) = Inl (Error order_message)"
    by (auto simp: validate_eq validate_reference_def exceeds_iff intro: bexI [of _ Class])
  from add_fragment_error [OF this, of v] show "id_sel s v h =
        Inl (Error ''Selector parts should be arranged in the following order: element, id, class, attribute, pseudo-class, pseudo-element'')"
    by (simp add: order_message_def)
next
  assume "PseudoClass \<in> set (order (h ! s))"
  then have "validate Attr (order (h ! s)) = Inl (Error order_message)"
    by (auto simp: validate_eq validate_reference_def singular_def exceeds_iff
        intro: bexI [of _ PseudoClass])
  from add_fragment_error [OF this, of v] show "attr s v h =
        Inl (Error ''Selector parts should be arranged in the following order: element, id, class, attribute, pseudo-class, pseudo-element'')"
    by (simp add: order_message_def)
qed

text \<open>
  The claim at \<^verbatim>\<open>cssSelectorBuilder.class('container').id('main')\<close> and at
  \<^verbatim>\<open>cssSelectorBuilder.pseudoClass('focus').attr('href')\<close>.
\<close>

theorem order_violation_raises_witness:
  "class_sel cssSelectorBuilder ''container'' initial_heap =
     Inr (1, [empty_builder, \<lparr>line = ''.container'', order = [Class]\<rparr>]) \<and>
   id_sel 1 ''main'' [empty_builder, \<lparr>line = ''.container'', order = [Class]\<rparr>] =
     Inl (Error ''Selector parts should be arranged in the following order: element, id, class, attribute, pseudo-class, pseudo-element'') \<and>
   pseudoClass cssSelectorBuilder ''focus'' initial_heap =
     Inr (1, [empty_builder, \<lparr>line = '':focus'', order = [PseudoClass]\<rparr>]) \<and>
   attr 1 ''href'' [empty_builder, \<lparr>line = '':focus'', order = [PseudoClass]\<rparr>] =
     Inl (Error ''Selector parts should be arranged in the following order: element, id, class, attribute, pseudo-class, pseudo-element'')"
proof -
  let ?h1 = "[empty_builder, \<lparr>line = ''.container'', order = [Class]\<rparr>]"
  let ?h2 = "[empty_builder, \<lparr>line = '':focus'', order = [PseudoClass]\<rparr>]"
  have built: "class_sel cssSelectorBuilder ''container'' initial_heap = Inr (1, ?h1)"
      "pseudoClass cssSelectorBuilder ''focus'' initial_heap = Inr (1, ?h2)"
    by (simp_all add: method_simps validate_defs cssSelectorBuilder_def initial_heap_def
        empty_builder_def)
  show ?thesis
    using built order_violation_raises [of ?h1 1 "''main''"]
      order_violation_raises [of ?h2 1 "''href''"]
    by simp
qed

subsection \<open>C7: combine\<close>

text \<open>
  Claim C7 says that \<^verbatim>\<open>combine(a, tok, b)\<close> renders as the rendering of \<open>a\<close>, a
  space, the token, a space and the rendering of \<open>b\<close>, for every two selector states.
  It does not when both operands are the same object: with
  \<^verbatim>\<open>x = cssSelectorBuilder.element('div')\<close>, the call \<^verbatim>\<open>combine(x, '+', x)\<close>
  renders as \<^verbatim>\<open>div + \<close> and not as \<^verbatim>\<open>div + div\<close>, since the conversion of the
  first operand to a string has emptied the object before the second one is converted.
\<close>

theorem combine_same_object_counterexample:
  "element cssSelectorBuilder ''div'' initial_heap = Inr (1, div_heap) \<and>
   fst (stringify 1 div_heap) = ''div'' \<and>
   fst (stringify cssSelectorBuilder
         (snd (combine cssSelectorBuilder [Obj 1, Str ''+'', Obj 1] div_heap))) = ''div + '' \<and>
   fst (stringify cssSelectorBuilder
         (snd (combine cssSelectorBuilder [Obj 1, Str ''+'', Obj 1] div_heap))) \<noteq>
     fst (stringify 1 div_heap) @ '' '' @ ''+'' @ '' '' @ fst (stringify 1 div_heap)"
proof -
  have built: "element cssSelectorBuilder ''div'' initial_heap = Inr (1, div_heap)"
    by (simp add: method_simps validate_defs cssSelectorBuilder_def initial_heap_def
        div_heap_def)
  have len: "(1::nat) < length div_heap" by (simp add: div_heap_def)
  have call: "combine cssSelectorBuilder [Obj 1, Str ''+'', Obj 1] div_heap =
      (cssSelectorBuilder,
       set_line cssSelectorBuilder (line (div_heap ! 1) @ '' '' @ ''+'' @ '' '')
         (div_heap[1 := empty_builder]))"
    by (rule combine_twice_same_object [OF len])
  have rendered: "fst (stringify cssSelectorBuilder
      (snd (combine cssSelectorBuilder [Obj 1, Str ''+'', Obj 1] div_heap))) = ''div + ''"
    unfolding call
    by (simp add: stringify_eq set_line_eq cssSelectorBuilder_def div_heap_def)
  have single: "fst (stringify 1 div_heap) = ''div''"
    by (simp add: stringify_eq div_heap_def)
  show ?thesis using built rendered single by simp
qed

text \<open>
  Claim C7, amended. For two selector objects \<open>a\<close> and \<open>b\<close> that are different
  objects and every token (any string), \<open>combine\<close> returns an object whose rendering
  is the rendering of \<open>a\<close>, a space, the token, a space and the rendering of \<open>b\<close>; and
  for any number of arguments, objects and strings alike, whose objects are pairwise
  different, the rendering is all arguments joined in call order with exactly one space
  between neighbours.
\<close>

theorem combine_joins_with_spaces:
  assumes "this < length h"
  shows "fst (combine this args h) = this \<and>
         fst (combine this [Obj a, Str tok, Obj b] h) = this \<and>
         (a \<noteq> b \<longrightarrow>
            fst (stringify this (snd (combine this [Obj a, Str tok, Obj b] h))) =
              fst (stringify a h) @ '' '' @ tok @ '' '' @ fst (stringify b h)) \<and>
         (distinct (arg_objs args) \<longrightarrow>
            fst (stringify this (snd (combine this args h))) =
              join_space (map (arg_text h) args))"
proof -
  have ret: "fst (combine this xs h) = this" for xs
    by (simp add: combine_def split: prod.splits)
  have joined: "fst (stringify this (snd (combine this xs h))) = join_space (map (arg_text h) xs)"
    if "distinct (arg_objs xs)" for xs
    using assms by (simp add: combine_eq [OF that] stringify_eq nth_set_line_same)
  have "fst (stringify this (snd (combine this [Obj a, Str tok, Obj b] h))) =
          fst (stringify a h) @ '' '' @ tok @ '' '' @ fst (stringify b h)" if "a \<noteq> b"
    using joined [of "[Obj a, Str tok, Obj b]"] that by (simp add: stringify_eq)
  then show ?thesis using ret joined by blast
qed

text \<open>
  The example \<^verbatim>\<open>combine(element('div'), '+', element('table'))\<close>, which renders as
  \<^verbatim>\<open>div + table\<close>, and a call with five arguments.
\<close>

theorem combine_joins_with_spaces_witness:
  "cssSelectorBuilder < length div_table_heap \<and>
   (1::nat) \<noteq> 2 \<and>
   distinct (arg_objs [Obj 1, Str ''+'', Obj 2, Str ''>'', Str ''p'']) \<and>
   fst (stringify 1 div_table_heap) = ''div'' \<and>
   fst (stringify 2 div_table_heap) = ''table'' \<and>
   fst (combine cssSelectorBuilder [Obj 1, Str ''+'', Obj 2] div_table_heap) =
     cssSelectorBuilder \<and>
   fst (stringify cssSelectorBuilder
         (snd (combine cssSelectorBuilder [Obj 1, Str ''+'', Obj 2] div_table_heap))) =
     ''div + table'' \<and>
   fst (stringify cssSelectorBuilder
         (snd (combine cssSelectorBuilder [Obj 1, Str ''+'', Obj 2, Str ''>'', Str ''p'']
                div_table_heap))) =
     ''div + table > p''"
proof -
  have len: "cssSelectorBuilder < length div_table_heap"
    by (simp add: cssSelectorBuilder_def div_table_heap_def)
  have texts: "fst (stringify 1 div_table_heap) = ''div''"
      "fst (stringify 2 div_table_heap) = ''table''"
      "line (div_table_heap ! 1) = ''div''" "line (div_table_heap ! 2) = ''table''"
    by (simp_all add: stringify_eq div_table_heap_def)
  show ?thesis
    using len texts
      combine_joins_with_spaces [OF len, of "[Obj 1, Str ''+'', Obj 2, Str ''>'', Str ''p'']"
        1 "''+''" 2]
    by simp
qed

subsection \<open>C8: rendering is destructive\<close>

text \<open>
  Claim C8. On every builder object, \<open>stringify\<close> returns the accumulated text and
  clears the text and the kind history of that object; \<open>toString\<close> does the same.
  Rendering is destructive: a second \<open>stringify\<close> on the same object returns the
  empty string, so the two results agree only when the text was empty.
\<close>

theorem stringify_destructive:
  assumes "s < length h"
  shows "fst (stringify s h) = line (h ! s) \<and>
         line (snd (stringify s h) ! s) = [] \<and>
         order (snd (stringify s h) ! s) = [] \<and>
         fst (stringify s (snd (stringify s h))) = [] \<and>
         (fst (stringify s (snd (stringify s h))) = fst (stringify s h)) = (line (h ! s) = []) \<and>
         toString s h = stringify s h"
  using assms by (auto simp add: stringify_eq toString_eq empty_builder_def)

text \<open>
  The claim at the object that \<^verbatim>\<open>cssSelectorBuilder.element('div')\<close> returned.
\<close>

theorem stringify_destructive_witness:
  "(1::nat) < length div_heap \<and>
   fst (stringify 1 div_heap) = ''div'' \<and>
   line (snd (stringify 1 div_heap) ! 1) = [] \<and>
   order (snd (stringify 1 div_heap) ! 1) = [] \<and>
   fst (stringify 1 (snd (stringify 1 div_heap))) = [] \<and>
   fst (stringify 1 (snd (stringify 1 div_heap))) \<noteq> fst (stringify 1 div_heap) \<and>
   toString 1 div_heap = stringify 1 div_heap"
proof -
  have len: "(1::nat) < length div_heap" by (simp add: div_heap_def)
  have line1: "line (div_heap ! 1) = ''div''" by (simp add: div_heap_def)
  show ?thesis using len line1 stringify_destructive [OF len] by simp
qed

subsection \<open>C9: the round trip through JSON\<close>

text \<open>
  \<^verbatim>\<open>getJSON\<close> is \<^verbatim>\<open>JSON.stringify\<close>, and \<^verbatim>\<open>fromJSON\<close> hands the text to
  \<^verbatim>\<open>JSON.parse\<close>, sets the prototype of a new object to \<^verbatim>\<open>proto\<close> and copies
  the parsed keys with the assignment \<^verbatim>\<open>ans[keys[i]] = input[keys[i]]\<close>. Both
  functions consist of calls of built-ins of the host, and this theory states nothing
  about them. What the source does on the text \<^verbatim>\<open>{"__proto__":{"radius":10}}\<close> is
  read from it directly: the parsed object has the own key \<^verbatim>\<open>__proto__\<close>, the
  assignment of that key reaches the setter that \<^verbatim>\<open>Object.prototype\<close> provides,
  and the object returned has no own key and the parsed \<^verbatim>\<open>{"radius":10}\<close> as its
  prototype instead of \<^verbatim>\<open>proto\<close>.
\<close>

subsection \<open>C10: a rendered object starts from scratch\<close>

text \<open>
  Claim C10. After \<open>stringify\<close> or \<open>toString\<close> on an object, that object is in the
  empty state (empty text, empty kind history), so a fragment method called on it next
  validates against the empty history, raises neither error whatever was added before
  the rendering, and returns a selector that holds that one fragment only.
\<close>

theorem render_resets_instance:
  assumes "s < length h"
  shows "snd (stringify s h) ! s = empty_builder \<and>
         snd (toString s h) ! s = empty_builder \<and>
         validate k (order (snd (stringify s h) ! s)) = Inr True \<and>
         validate k (order (snd (toString s h) ! s)) = Inr True \<and>
         add_fragment k s v (snd (stringify s h)) =
           Inr (length h, snd (stringify s h) @ [\<lparr>line = fragment_text k v, order = [k]\<rparr>]) \<and>
         add_fragment k s v (snd (toString s h)) =
           Inr (length h, snd (toString s h) @ [\<lparr>line = fragment_text k v, order = [k]\<rparr>])"
proof -
  let ?h = "h[s := empty_builder]"
  have e: "?h ! s = empty_builder" using assms by simp
  have v: "validate k (order (?h ! s)) = Inr True"
    unfolding e by (rule validate_ok) (simp add: empty_builder_def)
  have "s < length ?h" using assms by simp
  from add_fragment_success [OF v this, of v]
  have "add_fragment k s v ?h =
      Inr (length h, ?h @ [\<lparr>line = fragment_text k v, order = [k]\<rparr>])"
    using assms by (simp add: empty_builder_def)
  with e v show ?thesis by (simp add: stringify_eq toString_eq)
qed

text \<open>
  The claim at the selector \<^verbatim>\<open>div#main\<close>: once rendered, the object accepts an
  element again, although its history held an element and an id before.
\<close>

theorem render_resets_instance_witness:
  "(2::nat) < length div_main_heap \<and>
   fst (stringify 2 div_main_heap) = ''div#main'' \<and>
   snd (stringify 2 div_main_heap) ! 2 = empty_builder \<and>
   snd (toString 2 div_main_heap) ! 2 = empty_builder \<and>
   validate Element (order (snd (stringify 2 div_main_heap) ! 2)) = Inr True \<and>
   add_fragment Element 2 ''p'' (snd (stringify 2 div_main_heap)) =
     Inr (3, [empty_builder, empty_builder, empty_builder, \<lparr>line = ''p'', order = [Element]\<rparr>]) \<and>
   add_fragment Element 2 ''p'' (snd (toString 2 div_main_heap)) =
     Inr (3, [empty_builder, empty_builder, empty_builder, \<lparr>line = ''p'', order = [Element]\<rparr>])"
proof -
  have len: "(2::nat) < length div_main_heap" by (simp add: div_main_heap_def)
  have h: "snd (stringify 2 div_main_heap) = [empty_builder, empty_builder, empty_builder]"
      "snd (toString 2 div_main_heap) = [empty_builder, empty_builder, empty_builder]"
      "fst (stringify 2 div_main_heap) = ''div#main''"
    by (simp_all add: stringify_eq toString_eq div_main_heap_def)
  show ?thesis
    using len render_resets_instance [OF len, of Element "''p''"]
    by (simp add: h) (simp add: div_main_heap_def)
qed

end
